theory Spec2Isabelle
  imports Complex_Main "HOL-Library.AList"
begin

section \<open>Python values and dictionaries\<close>

text \<open>
  The search code builds Elasticsearch request bodies out of nested Python dicts, lists,
  strings and numbers, and receives hits whose \<^verbatim>\<open>_source\<close> is such a dict. A dict is an
  association list in insertion order with \<open>map_of\<close> as lookup; Python's unbounded \<open>int\<close>
  is \<open>int\<close>; a Python \<open>float\<close> is read as a real number (the only float operation of
  the code is the comparison \<^verbatim>\<open>>=\<close>; NaN is outside the model).
\<close>

datatype pyval =
    PNone
  | PBool bool
  | PInt int
  | PFloat real
  | PStr string
  | PList "pyval list"
  | PDict "(string \<times> pyval) list"

type_synonym pydict = "(string \<times> pyval) list"

text \<open>\<^verbatim>\<open>k in d\<close>\<close>

definition dict_in :: "string \<Rightarrow> pydict \<Rightarrow> bool" where
  "dict_in k d = (case map_of d k of None \<Rightarrow> False | Some v \<Rightarrow> True)"

text \<open>\<^verbatim>\<open>d[k] = v\<close>: an existing key keeps its position, a new key goes last.\<close>

definition dict_set :: "string \<Rightarrow> pyval \<Rightarrow> pydict \<Rightarrow> pydict" where
  "dict_set k v d = AList.update k v d"

text \<open>\<^verbatim>\<open>{**d, **e}\<close>: the items of \<open>e\<close> are stored into \<open>d\<close> one after the other.\<close>

fun dict_unpack :: "pydict \<Rightarrow> pydict \<Rightarrow> pydict" where
  "dict_unpack d [] = d"
| "dict_unpack d ((k, v) # e) = dict_unpack (dict_set k v d) e"

text \<open>Truthiness of an \<^verbatim>\<open>Optional[Dict]\<close>: \<^verbatim>\<open>None\<close> and the empty dict are false.\<close>

fun truthy :: "pydict option \<Rightarrow> bool" where
  "truthy None = False"
| "truthy (Some d) = (d \<noteq> [])"


text \<open>Reading a request body: one key of a dict value, and a path of keys.\<close>

fun py_get :: "string \<Rightarrow> pyval \<Rightarrow> pyval option" where
  "py_get k (PDict d) = map_of d k"
| "py_get k v = None"

fun py_path :: "string list \<Rightarrow> pyval \<Rightarrow> pyval option" where
  "py_path [] v = Some v"
| "py_path (k # ks) v = (case py_get k v of None \<Rightarrow> None | Some u \<Rightarrow> py_path ks u)"

section \<open>Exceptions, collaborators and calls\<close>

text \<open>
  The outcome of a Python call is \<open>Inr\<close> of its value or \<open>Inl\<close> of the exception it raises.
  \<open>Raised e\<close> is an exception \<open>e\<close> of a collaborator (the embedding model, the
  Elasticsearch client) leaving the call unchanged; the source has no \<^verbatim>\<open>try\<close> around
  either call. \<open>InvalidArgument\<close> and \<open>DependencyError\<close> are the two error classes of the
  specification's taxonomy; the source declares neither class, and no definition below
  produces them.
\<close>

datatype 'e exn =
    InvalidArgument string
  | DependencyError 'e
  | Raised 'e

text \<open>A hit of \<^verbatim>\<open>response['hits']['hits']\<close>: its \<^verbatim>\<open>_id\<close>, \<^verbatim>\<open>_score\<close> and \<^verbatim>\<open>_source\<close>.\<close>

record hit =
  hit_id :: string
  hit_score :: real
  hit_source :: pydict

text \<open>
  The keyword arguments of \<^verbatim>\<open>client.search\<close>; \<^verbatim>\<open>query\<close> and \<^verbatim>\<open>rank\<close> are absent from the
  call of \<^verbatim>\<open>VectorSearch.search\<close>.
\<close>

record request =
  req_index :: string
  req_query :: "pyval option"
  req_knn :: pyval
  req_size :: int
  req_source :: pyval
  req_rank :: "pyval option"

text \<open>
  The collaborators of the search classes: \<^verbatim>\<open>embedding_generator.encode_query\<close>,
  \<^verbatim>\<open>self.client.search\<close> (giving the hit list of its response) and the configured
  \<^verbatim>\<open>self.index_name\<close>.
\<close>

record 'e world =
  encode_query :: "string \<Rightarrow> 'e + real list"
  client_search :: "request \<Rightarrow> 'e + hit list"
  index_name :: string

text \<open>The calls a search issues to its collaborators, in order.\<close>

datatype call = EncodeQuery string | ClientSearch request

section \<open>Filter translation\<close>

text \<open>
  The body shared by \<^verbatim>\<open>HybridSearch._build_filters\<close> (lines 112 to 129) and
  \<^verbatim>\<open>VectorSearch._build_filters\<close> (lines 89 to 112), statement by statement. A read
  \<^verbatim>\<open>filters[k]\<close> stands under its test \<^verbatim>\<open>k in filters\<close>, so the two are one \<open>case\<close>.
\<close>

definition must_clauses_of :: "pydict \<Rightarrow> pyval list" where
  "must_clauses_of filters =
    (let must_clauses = [];
         must_clauses =
           (if dict_in ''min_price'' filters \<or> dict_in ''max_price'' filters then
              (let price = [];
                   price = (case map_of filters ''min_price'' of
                              Some v \<Rightarrow> dict_set ''gte'' v price | None \<Rightarrow> price);
                   price = (case map_of filters ''max_price'' of
                              Some v \<Rightarrow> dict_set ''lte'' v price | None \<Rightarrow> price);
                   range_filter = PDict [(''range'', PDict [(''price'', PDict price)])]
               in must_clauses @ [range_filter])
            else must_clauses);
         must_clauses =
           (case map_of filters ''category'' of
              Some v \<Rightarrow> must_clauses @ [PDict [(''term'', PDict [(''category'', v)])]]
            | None \<Rightarrow> must_clauses);
         must_clauses =
           (case map_of filters ''brand'' of
              Some v \<Rightarrow> must_clauses @ [PDict [(''term'', PDict [(''brand'', v)])]]
            | None \<Rightarrow> must_clauses);
         must_clauses =
           (case map_of filters ''min_rating'' of
              Some v \<Rightarrow>
                must_clauses @ [PDict [(''range'', PDict [(''rating'', PDict [(''gte'', v)])])]]
            | None \<Rightarrow> must_clauses)
     in must_clauses)"

text \<open>\<^verbatim>\<open>HybridSearch._build_filters\<close> returns the list; it has no \<^verbatim>\<open>raise\<close>.\<close>

definition HybridSearch_build_filters :: "pydict \<Rightarrow> 'e exn + pyval list" where
  "HybridSearch_build_filters filters = Inr (must_clauses_of filters)"

text \<open>
  \<^verbatim>\<open>VectorSearch._build_filters\<close> returns
  \<^verbatim>\<open>{"bool": {"must": must_clauses}} if must_clauses else {}\<close>.
\<close>

definition VectorSearch_build_filters :: "pydict \<Rightarrow> 'e exn + pyval" where
  "VectorSearch_build_filters filters =
    (let must_clauses = must_clauses_of filters
     in Inr (if must_clauses \<noteq> [] then PDict [(''bool'', PDict [(''must'', PList must_clauses)])]
             else PDict []))"

text \<open>
  \<^verbatim>\<open>SearchAgent._understand_query\<close>, lines 114 to 119: the dict comprehension
  \<^verbatim>\<open>{k: v for k, v in analysis['filters'].items() if v is not None}\<close> that the agent
  applies before it calls \<^verbatim>\<open>HybridSearch.search\<close>.
\<close>

definition remove_nulls :: "pydict \<Rightarrow> pydict" where
  "remove_nulls filters = filter (\<lambda>(k, v). v \<noteq> PNone) filters"

text \<open>
  The four statements \<^verbatim>\<open>if filters: target["filter"] = self._build_filters(filters)\<close>
  (hybrid_search.py lines 64 and 76, vector_search.py line 53), for the dict \<open>target\<close>
  and the \<open>build\<close> of the class.
\<close>

definition attach_filters ::
  "(pydict \<Rightarrow> 'e exn + pyval) \<Rightarrow> pydict option \<Rightarrow> pydict \<Rightarrow> 'e exn + pydict" where
  "attach_filters build filters target =
    (case filters of
       None \<Rightarrow> Inr target
     | Some d \<Rightarrow>
         if d \<noteq> [] then
           (case build d of Inl e \<Rightarrow> Inl e | Inr fs \<Rightarrow> Inr (dict_set ''filter'' fs target))
         else Inr target)"

section \<open>Result processing\<close>

text \<open>\<^verbatim>\<open>{'id': hit['_id'], 'score': hit['_score'], **hit['_source']}\<close>\<close>

definition make_result :: "hit \<Rightarrow> pydict" where
  "make_result h =
     dict_unpack [(''id'', PStr (hit_id h)), (''score'', PFloat (hit_score h))] (hit_source h)"

text \<open>The loop of \<^verbatim>\<open>HybridSearch.search\<close>, lines 99 to 106, from the list \<open>results\<close> so far.\<close>

fun hybrid_results :: "pydict list \<Rightarrow> hit list \<Rightarrow> pydict list" where
  "hybrid_results results [] = results"
| "hybrid_results results (h # hits) = hybrid_results (results @ [make_result h]) hits"

text \<open>The loop of \<^verbatim>\<open>VectorSearch.search\<close>, lines 67 to 75, with its score test.\<close>

fun vector_results :: "real \<Rightarrow> pydict list \<Rightarrow> hit list \<Rightarrow> pydict list" where
  "vector_results min_score results [] = results"
| "vector_results min_score results (h # hits) =
     (if hit_score h \<ge> min_score
      then vector_results min_score (results @ [make_result h]) hits
      else vector_results min_score results hits)"

section \<open>The two searches\<close>

text \<open>The dict under \<^verbatim>\<open>"bool"\<close> of \<^verbatim>\<open>keyword_query\<close>, lines 48 to 61.\<close>

definition keyword_bool :: "string \<Rightarrow> pydict" where
  "keyword_bool query =
     [(''should'',
       PList [PDict [(''multi_match'',
         PDict [(''query'', PStr query),
                (''fields'', PList [PStr ''title^3'', PStr ''description^2'', PStr ''tags'']),
                (''type'', PStr ''best_fields''),
                (''fuzziness'', PStr ''AUTO'')])]])]"

text \<open>\<^verbatim>\<open>knn_query\<close> before the filters, for the oversampling factor of the class.\<close>

definition knn_base :: "real list \<Rightarrow> int \<Rightarrow> int \<Rightarrow> pydict" where
  "knn_base query_vector top_k factor =
     [(''field'', PStr ''combined_vector''),
      (''query_vector'', PList (map PFloat query_vector)),
      (''k'', PInt top_k),
      (''num_candidates'', PInt (top_k * factor))]"

definition source_excludes :: pyval where
  "source_excludes = PDict [(''excludes'', PList [PStr ''*_vector''])]"

definition rrf_rank :: pyval where
  "rrf_rank = PDict [(''rrf'', PDict [(''window_size'', PInt 50), (''rank_constant'', PInt 20)])]"

text \<open>
  \<^verbatim>\<open>HybridSearch.search(query, top_k, semantic_weight, filters)\<close>: the calls issued and
  the outcome. \<^verbatim>\<open>keyword_query["bool"]["filter"] = ...\<close> stores into the dict under
  \<^verbatim>\<open>"bool"\<close>, which is built first here and wrapped after. \<open>semantic_weight\<close> is not read
  by the source.
\<close>

definition HybridSearch_search ::
  "'e world \<Rightarrow> string \<Rightarrow> int \<Rightarrow> real \<Rightarrow> pydict option
     \<Rightarrow> call list \<times> ('e exn + pydict list)" where
  "HybridSearch_search w query top_k semantic_weight filters =
    (case encode_query w query of
       Inl e \<Rightarrow> ([EncodeQuery query], Inl (Raised e))
     | Inr query_vector \<Rightarrow>
        (case attach_filters (\<lambda>d. map_sum id PList (HybridSearch_build_filters d)) filters
                (keyword_bool query) of
           Inl e \<Rightarrow> ([EncodeQuery query], Inl e)
         | Inr bool_body \<Rightarrow>
            (case attach_filters (\<lambda>d. map_sum id PList (HybridSearch_build_filters d)) filters
                    (knn_base query_vector top_k 3) of
               Inl e \<Rightarrow> ([EncodeQuery query], Inl e)
             | Inr knn_query \<Rightarrow>
                (let req = \<lparr> req_index = index_name w,
                             req_query = Some (PDict [(''bool'', PDict bool_body)]),
                             req_knn = PDict knn_query,
                             req_size = top_k,
                             req_source = source_excludes,
                             req_rank = Some rrf_rank \<rparr>
                 in (case client_search w req of
                       Inl e \<Rightarrow> ([EncodeQuery query, ClientSearch req], Inl (Raised e))
                     | Inr hits \<Rightarrow>
                         ([EncodeQuery query, ClientSearch req],
                          Inr (hybrid_results [] hits)))))))"

text \<open>\<^verbatim>\<open>VectorSearch.search(query, top_k, min_score, filters)\<close>.\<close>

definition VectorSearch_search ::
  "'e world \<Rightarrow> string \<Rightarrow> int \<Rightarrow> real \<Rightarrow> pydict option
     \<Rightarrow> call list \<times> ('e exn + pydict list)" where
  "VectorSearch_search w query top_k min_score filters =
    (case encode_query w query of
       Inl e \<Rightarrow> ([EncodeQuery query], Inl (Raised e))
     | Inr query_vector \<Rightarrow>
        (case attach_filters VectorSearch_build_filters filters
                (knn_base query_vector top_k 2) of
           Inl e \<Rightarrow> ([EncodeQuery query], Inl e)
         | Inr knn_query \<Rightarrow>
            (let req = \<lparr> req_index = index_name w,
                         req_query = None,
                         req_knn = PDict knn_query,
                         req_size = top_k,
                         req_source = source_excludes,
                         req_rank = None \<rparr>
             in (case client_search w req of
                   Inl e \<Rightarrow> ([EncodeQuery query, ClientSearch req], Inl (Raised e))
                 | Inr hits \<Rightarrow>
                     ([EncodeQuery query, ClientSearch req],
                      Inr (vector_results min_score [] hits))))))"


section \<open>The specification's filter translation\<close>

text \<open>
  Section 4.2 of the specification, in its own words and on the lookup function of a
  FilterSet: a price-range predicate first when either bound is present (\<open>gte\<close> for
  \<open>min_price\<close>, \<open>lte\<close> for \<open>max_price\<close>), then the exact-match predicate of \<open>category\<close>,
  then that of \<open>brand\<close>, then the \<open>gte\<close> bound on \<open>rating\<close>; an absent key gives nothing.
\<close>

definition range_predicate :: "string \<Rightarrow> pydict \<Rightarrow> pyval" where
  "range_predicate field bounds = PDict [(''range'', PDict [(field, PDict bounds)])]"

definition term_predicate :: "string \<Rightarrow> pyval \<Rightarrow> pyval" where
  "term_predicate field v = PDict [(''term'', PDict [(field, v)])]"

definition spec_price_range :: "pyval option \<Rightarrow> pyval option \<Rightarrow> pyval list" where
  "spec_price_range lo hi =
     (case (lo, hi) of
        (None, None) \<Rightarrow> []
      | (Some a, None) \<Rightarrow> [range_predicate ''price'' [(''gte'', a)]]
      | (None, Some b) \<Rightarrow> [range_predicate ''price'' [(''lte'', b)]]
      | (Some a, Some b) \<Rightarrow> [range_predicate ''price'' [(''gte'', a), (''lte'', b)]])"

definition spec_term :: "string \<Rightarrow> pyval option \<Rightarrow> pyval list" where
  "spec_term field x = (case x of None \<Rightarrow> [] | Some v \<Rightarrow> [term_predicate field v])"

definition spec_rating :: "pyval option \<Rightarrow> pyval list" where
  "spec_rating x =
     (case x of None \<Rightarrow> [] | Some v \<Rightarrow> [range_predicate ''rating'' [(''gte'', v)]])"

definition spec_translate :: "(string \<rightharpoonup> pyval) \<Rightarrow> pyval list" where
  "spec_translate f =
     spec_price_range (f ''min_price'') (f ''max_price'') @ spec_term ''category'' (f ''category'')
       @ spec_term ''brand'' (f ''brand'') @ spec_rating (f ''min_rating'')"

text \<open>The keys of a FilterSet; every other key is an unknown key.\<close>

definition filter_keys :: "string set" where
  "filter_keys = {''min_price'', ''max_price'', ''category'', ''brand'', ''min_rating''}"

section \<open>Reading requests and results\<close>

text \<open>
  Elasticsearch's field syntax in \<^verbatim>\<open>multi_match\<close>: \<^verbatim>\<open>name^boost\<close>, the boost being 1
  when none is written. Only whole-number boosts occur in the source.
\<close>

fun digits_value :: "nat \<Rightarrow> string \<Rightarrow> nat" where
  "digits_value acc [] = acc"
| "digits_value acc (c # cs) = digits_value (10 * acc + (of_char c - 48)) cs"

definition field_boost :: "string \<Rightarrow> string \<times> nat" where
  "field_boost s =
     (takeWhile (\<lambda>c. c \<noteq> CHR ''^'') s,
      case dropWhile (\<lambda>c. c \<noteq> CHR ''^'') s of [] \<Rightarrow> 1 | c # ds \<Rightarrow> digits_value 0 ds)"



section \<open>The retrieval backend's contract\<close>





section \<open>Fixtures\<close>

text \<open>
  Collaborators for concrete runs: an embedding model that answers, one that raises, and
  backends that answer with a fixed hit list whatever the request says.
\<close>

definition fixture_world :: "hit list \<Rightarrow> string world" where
  "fixture_world hits =
     \<lparr> encode_query = (\<lambda>q. Inr [1 / 4, 3 / 4]),
       client_search = (\<lambda>req. Inr hits),
       index_name = ''products_vector_search'' \<rparr>"

definition failing_embedder :: "string world" where
  "failing_embedder =
     \<lparr> encode_query = (\<lambda>q. Inl ''model unreachable''),
       client_search = (\<lambda>req. Inr []),
       index_name = ''products_vector_search'' \<rparr>"

definition jacket :: hit where
  "jacket = \<lparr> hit_id = ''p1'', hit_score = 1 / 10, hit_source = [(''title'', PStr ''Jacket'')] \<rparr>"

definition boots :: hit where
  "boots = \<lparr> hit_id = ''p2'', hit_score = 9 / 10, hit_source = [(''title'', PStr ''Boots'')] \<rparr>"

definition gloves :: hit where
  "gloves = \<lparr> hit_id = ''p3'', hit_score = 1 / 2, hit_source = [(''title'', PStr ''Gloves'')] \<rparr>"



section \<open>Basic facts\<close>

lemma hybrid_results_map: "hybrid_results results hits = results @ map make_result hits"
  by (induction hits arbitrary: results) simp_all

lemmas spec_defs = spec_translate_def spec_price_range_def spec_term_def spec_rating_def
  range_predicate_def term_predicate_def

lemma must_clauses_spec: "must_clauses_of filters = spec_translate (map_of filters)"
  by (simp add: must_clauses_of_def spec_defs dict_in_def dict_set_def Let_def
      split: option.splits)

lemma spec_translate_unknown_key:
  "k \<notin> filter_keys \<Longrightarrow> spec_translate (f(k := x)) = spec_translate f"
  by (auto simp: spec_translate_def filter_keys_def)

lemma spec_translate_known_key:
  "k \<in> filter_keys \<Longrightarrow> f k = Some v \<Longrightarrow> spec_translate (f(k := None)) \<noteq> spec_translate f"
  by (auto simp: filter_keys_def spec_defs split: option.splits)

lemma remove_nulls_delete:
  "(\<And>v. (k, v) \<in> set filters \<Longrightarrow> v = PNone) \<Longrightarrow>
     remove_nulls (AList.delete k filters) = remove_nulls filters"
proof (induction filters)
  case Nil
  show ?case by (simp add: remove_nulls_def)
next
  case (Cons p ps)
  obtain a b where p: "p = (a, b)" by (cases p)
  have rest: "remove_nulls (AList.delete k ps) = remove_nulls ps"
    using Cons by simp
  show ?case
  proof (cases "a = k")
    case True
    with p Cons.prems have "b = PNone" by simp
    with True p rest show ?thesis by (simp add: remove_nulls_def)
  next
    case False
    with p rest show ?thesis by (simp add: remove_nulls_def)
  qed
qed








lemma attach_hybrid:
  "attach_filters (\<lambda>d. map_sum id PList (HybridSearch_build_filters d)) filters target =
     Inr (case filters of None \<Rightarrow> target
          | Some d \<Rightarrow> if d \<noteq> [] then dict_set ''filter'' (PList (must_clauses_of d)) target else target)"
  by (simp add: attach_filters_def HybridSearch_build_filters_def split: option.splits)

lemma hybrid_search_embed_fails:
  "encode_query w q = Inl e \<Longrightarrow> HybridSearch_search w q k sw f = ([EncodeQuery q], Inl (Raised e))"
  by (simp add: HybridSearch_search_def)

lemma hybrid_search_embed_ok:
  assumes "encode_query w q = Inr qv"
  shows "\<exists>req body knn.
           HybridSearch_search w q k sw f =
             ([EncodeQuery q, ClientSearch req],
              case client_search w req of Inl e \<Rightarrow> Inl (Raised e)
               | Inr hits \<Rightarrow> Inr (map make_result hits))
         \<and> req = \<lparr> req_index = index_name w, req_query = Some (PDict [(''bool'', PDict body)]),
                   req_knn = PDict knn, req_size = k, req_source = source_excludes,
                   req_rank = Some rrf_rank \<rparr>
         \<and> body = (case f of None \<Rightarrow> keyword_bool q
              | Some d \<Rightarrow> if d \<noteq> [] then dict_set ''filter'' (PList (must_clauses_of d)) (keyword_bool q) else keyword_bool q)
         \<and> knn = (case f of None \<Rightarrow> knn_base qv k 3
              | Some d \<Rightarrow> if d \<noteq> [] then dict_set ''filter'' (PList (must_clauses_of d)) (knn_base qv k 3) else knn_base qv k 3)"
  using assms
  by (simp add: HybridSearch_search_def attach_hybrid Let_def hybrid_results_map split: sum.splits)






lemmas run_defs = HybridSearch_search_def VectorSearch_search_def fixture_world_def
  failing_embedder_def attach_filters_def HybridSearch_build_filters_def
  VectorSearch_build_filters_def must_clauses_of_def keyword_bool_def knn_base_def
  source_excludes_def rrf_rank_def make_result_def dict_set_def dict_in_def
  jacket_def boots_def gloves_def



lemma map_of_remove_nulls:
  "distinct (map fst filters) \<Longrightarrow>
     map_of (remove_nulls filters) = (\<lambda>k. case map_of filters k of Some PNone \<Rightarrow> None | x \<Rightarrow> x)"
proof (induction filters)
  case Nil
  show ?case by (simp add: remove_nulls_def fun_eq_iff)
next
  case (Cons p ps)
  obtain a b where p: "p = (a, b)" by (cases p)
  from Cons.prems p have fresh: "map_of ps a = None" and rest: "distinct (map fst ps)"
    by (auto simp: map_of_eq_None_iff)
  have tail: "map_of (remove_nulls ps) k = (case map_of ps k of Some PNone \<Rightarrow> None | x \<Rightarrow> x)" for k
    using Cons.IH [OF rest] by (simp add: fun_eq_iff)
  show ?case
  proof (rule ext)
    fix k
    show "map_of (remove_nulls (p # ps)) k = (case map_of (p # ps) k of Some PNone \<Rightarrow> None | x \<Rightarrow> x)"
    proof (cases "b = PNone")
      case True
      have "remove_nulls (p # ps) = remove_nulls ps"
        using p True by (simp add: remove_nulls_def)
      with tail [of k] fresh p True show ?thesis by (cases "k = a") simp_all
    next
      case False
      have "remove_nulls (p # ps) = (a, b) # remove_nulls ps"
        using p False by (simp add: remove_nulls_def)
      with tail [of k] p False show ?thesis
        by (cases "k = a") (auto split: option.splits pyval.splits)
    qed
  qed
qed





section \<open>Filter translation: the claims\<close>

text \<open>
  C5. For every FilterSet, \<^verbatim>\<open>HybridSearch._build_filters\<close> returns exactly the
  specification's predicate sequence: the price-range predicate (with \<open>gte\<close> for
  \<open>min_price\<close> and/or \<open>lte\<close> for \<open>max_price\<close>) if either bound is present, then the
  exact-match predicate of \<open>category\<close>, then that of \<open>brand\<close>, then the \<open>gte\<close> predicate
  of \<open>rating\<close>; absent keys contribute nothing. \<^verbatim>\<open>VectorSearch._build_filters\<close> holds the
  same sequence under \<^verbatim>\<open>bool.must\<close> (and is \<^verbatim>\<open>{}\<close> when the sequence is empty). The
  empty FilterSet yields the empty sequence, and an unknown key is ignored: storing it
  or removing it leaves the output as it is.
\<close>

theorem build_filters_ordered_predicates:
  "HybridSearch_build_filters filters = (Inr (spec_translate (map_of filters)) :: 'e exn + pyval list)
   \<and> VectorSearch_build_filters filters =
       (Inr (if spec_translate (map_of filters) = [] then PDict []
             else PDict [(''bool'', PDict [(''must'', PList (spec_translate (map_of filters)))])])
          :: 'e exn + pyval)
   \<and> HybridSearch_build_filters [] = (Inr [] :: 'e exn + pyval list)
   \<and> (k \<notin> filter_keys \<longrightarrow>
         HybridSearch_build_filters (dict_set k v filters)
           = (HybridSearch_build_filters filters :: 'e exn + pyval list)
       \<and> HybridSearch_build_filters (AList.delete k filters)
           = (HybridSearch_build_filters filters :: 'e exn + pyval list))"
proof (intro conjI impI)
  show "HybridSearch_build_filters filters = (Inr (spec_translate (map_of filters)) :: 'e exn + pyval list)"
    by (simp add: HybridSearch_build_filters_def must_clauses_spec)
  show "VectorSearch_build_filters filters =
       (Inr (if spec_translate (map_of filters) = [] then PDict []
             else PDict [(''bool'', PDict [(''must'', PList (spec_translate (map_of filters)))])])
          :: 'e exn + pyval)"
    by (simp add: VectorSearch_build_filters_def must_clauses_spec Let_def)
  show "HybridSearch_build_filters [] = (Inr [] :: 'e exn + pyval list)"
    by (simp add: HybridSearch_build_filters_def must_clauses_spec spec_defs)
next
  assume unknown: "k \<notin> filter_keys"
  show "HybridSearch_build_filters (dict_set k v filters)
          = (HybridSearch_build_filters filters :: 'e exn + pyval list)"
    using spec_translate_unknown_key [OF unknown, of "map_of filters" "Some v"]
    by (simp add: HybridSearch_build_filters_def must_clauses_spec dict_set_def update_conv')
  show "HybridSearch_build_filters (AList.delete k filters)
          = (HybridSearch_build_filters filters :: 'e exn + pyval list)"
    using spec_translate_unknown_key [OF unknown, of "map_of filters" None]
    by (simp add: HybridSearch_build_filters_def must_clauses_spec delete_conv')
qed

theorem build_filters_ordered_predicates_witness:
  "''color'' \<notin> filter_keys
   \<and> HybridSearch_build_filters
        [(''color'', PStr ''red''), (''min_rating'', PFloat (9 / 2)), (''brand'', PStr ''Acme''),
         (''max_price'', PInt 1500)]
       = (Inr [PDict [(''range'', PDict [(''price'', PDict [(''lte'', PInt 1500)])])],
               PDict [(''term'', PDict [(''brand'', PStr ''Acme'')])],
               PDict [(''range'', PDict [(''rating'', PDict [(''gte'', PFloat (9 / 2))])])]]
            :: string exn + pyval list)
   \<and> HybridSearch_build_filters
        (AList.delete ''color''
          [(''color'', PStr ''red''), (''min_rating'', PFloat (9 / 2)), (''brand'', PStr ''Acme''),
           (''max_price'', PInt 1500)])
       = (HybridSearch_build_filters
           [(''color'', PStr ''red''), (''min_rating'', PFloat (9 / 2)), (''brand'', PStr ''Acme''),
            (''max_price'', PInt 1500)] :: string exn + pyval list)"
  using build_filters_ordered_predicates
    [of "[(''color'', PStr ''red''), (''min_rating'', PFloat (9 / 2)), (''brand'', PStr ''Acme''),
          (''max_price'', PInt 1500)]" "''color''" "PStr ''red''", where ?'e = string]
  by (simp add: filter_keys_def spec_defs)

text \<open>
  C3, as the code has it. \<^verbatim>\<open>_build_filters\<close> parses nothing and never raises: it returns
  normally for every FilterSet, and the value bound to \<open>min_price\<close>, \<open>max_price\<close> or
  \<open>min_rating\<close>, a number or not, stands unchanged as the \<open>gte\<close> or \<open>lte\<close> bound of the
  price predicate (the first of the sequence) or as the \<open>gte\<close> bound of the rating
  predicate (the last).
\<close>

theorem build_filters_copies_numeric_values:
  "\<exists>ps. HybridSearch_build_filters filters = (Inr ps :: 'e exn + pyval list)
     \<and> (\<forall>v. map_of filters ''min_price'' = Some v \<longrightarrow>
            ps \<noteq> [] \<and> py_path [''range'', ''price'', ''gte''] (hd ps) = Some v)
     \<and> (\<forall>v. map_of filters ''max_price'' = Some v \<longrightarrow>
            ps \<noteq> [] \<and> py_path [''range'', ''price'', ''lte''] (hd ps) = Some v)
     \<and> (\<forall>v. map_of filters ''min_rating'' = Some v \<longrightarrow>
            ps \<noteq> [] \<and> py_path [''range'', ''rating'', ''gte''] (last ps) = Some v)"
  by (simp add: HybridSearch_build_filters_def must_clauses_spec spec_defs split: option.splits)

theorem build_filters_copies_numeric_values_witness:
  "map_of [(''min_price'', PStr ''abc''), (''max_price'', PStr ''cheap''), (''min_rating'', PStr ''high'')]
      ''min_price'' = Some (PStr ''abc'')
   \<and> map_of [(''min_price'', PStr ''abc''), (''max_price'', PStr ''cheap''), (''min_rating'', PStr ''high'')]
      ''max_price'' = Some (PStr ''cheap'')
   \<and> map_of [(''min_price'', PStr ''abc''), (''max_price'', PStr ''cheap''), (''min_rating'', PStr ''high'')]
      ''min_rating'' = Some (PStr ''high'')
   \<and> (\<exists>ps. HybridSearch_build_filters
              [(''min_price'', PStr ''abc''), (''max_price'', PStr ''cheap''), (''min_rating'', PStr ''high'')]
            = (Inr ps :: string exn + pyval list)
          \<and> py_path [''range'', ''price'', ''gte''] (hd ps) = Some (PStr ''abc'')
          \<and> py_path [''range'', ''price'', ''lte''] (hd ps) = Some (PStr ''cheap'')
          \<and> py_path [''range'', ''rating'', ''gte''] (last ps) = Some (PStr ''high''))"
  using build_filters_copies_numeric_values
    [of "[(''min_price'', PStr ''abc''), (''max_price'', PStr ''cheap''), (''min_rating'', PStr ''high'')]",
     where ?'e = string]
  by auto

text \<open>
  C3 as stated fails: for \<^verbatim>\<open>{min_price: "abc"}\<close> the translation returns the price
  predicate with the bound \<^verbatim>\<open>"abc"\<close>; it does not raise \<open>InvalidArgument\<close>.
\<close>

theorem build_filters_non_numeric_counterexample:
  "HybridSearch_build_filters [(''min_price'', PStr ''abc'')]
     = (Inr [PDict [(''range'', PDict [(''price'', PDict [(''gte'', PStr ''abc'')])])]]
          :: string exn + pyval list)
   \<and> HybridSearch_build_filters [(''min_price'', PStr ''abc'')]
     \<noteq> (Inl (InvalidArgument ''min_price'') :: string exn + pyval list)"
  by (simp add: HybridSearch_build_filters_def must_clauses_of_def dict_in_def dict_set_def)

text \<open>
  C4, as the code has it. \<^verbatim>\<open>_build_filters\<close> decides by key membership alone. A key of
  the FilterSet that is present, whatever its value (null and empty included), is
  translated into its predicate with that value: the price predicate has it as its
  \<open>gte\<close> or \<open>lte\<close> bound, the exact-match predicates of \<open>category\<close> and \<open>brand\<close> and the
  \<open>gte\<close> predicate of \<open>rating\<close> carry it; so the output differs from that of the
  FilterSet with the key removed. A null-valued key is treated as absent on the agent's
  path only: after the clean-up of \<^verbatim>\<open>SearchAgent._understand_query\<close> the translation is the
  specification's translation of the FilterSet read with its null-valued keys absent,
  hence that of the FilterSet with such a key removed; a key bound to the empty string
  survives the clean-up and is still translated.
\<close>

theorem build_filters_by_key_membership:
  "\<exists>ps. HybridSearch_build_filters filters = (Inr ps :: 'e exn + pyval list)
     \<and> (\<forall>v. map_of filters ''min_price'' = Some v \<longrightarrow>
            (\<exists>bounds. range_predicate ''price'' bounds \<in> set ps \<and> map_of bounds ''gte'' = Some v))
     \<and> (\<forall>v. map_of filters ''max_price'' = Some v \<longrightarrow>
            (\<exists>bounds. range_predicate ''price'' bounds \<in> set ps \<and> map_of bounds ''lte'' = Some v))
     \<and> (\<forall>v. map_of filters ''category'' = Some v \<longrightarrow> term_predicate ''category'' v \<in> set ps)
     \<and> (\<forall>v. map_of filters ''brand'' = Some v \<longrightarrow> term_predicate ''brand'' v \<in> set ps)
     \<and> (\<forall>v. map_of filters ''min_rating'' = Some v \<longrightarrow>
            range_predicate ''rating'' [(''gte'', v)] \<in> set ps)
     \<and> (\<forall>v. k \<in> filter_keys \<and> map_of filters k = Some v \<longrightarrow>
            HybridSearch_build_filters (AList.delete k filters) \<noteq> (Inr ps :: 'e exn + pyval list))
     \<and> (distinct (map fst filters) \<longrightarrow>
            HybridSearch_build_filters (remove_nulls filters)
              = (Inr (spec_translate
                       (\<lambda>key. case map_of filters key of Some PNone \<Rightarrow> None | x \<Rightarrow> x))
                   :: 'e exn + pyval list))
     \<and> (distinct (map fst filters) \<and> map_of filters k = Some PNone \<longrightarrow>
            HybridSearch_build_filters (remove_nulls filters)
              = (HybridSearch_build_filters (remove_nulls (AList.delete k filters))
                   :: 'e exn + pyval list))
     \<and> (distinct (map fst filters) \<and> k' \<in> filter_keys \<and> map_of filters k' = Some (PStr []) \<longrightarrow>
            HybridSearch_build_filters (remove_nulls filters)
              \<noteq> (HybridSearch_build_filters (remove_nulls (AList.delete k' filters))
                   :: 'e exn + pyval list))"
proof -
  let ?ps = "must_clauses_of filters"
  let ?f = "\<lambda>key. case map_of filters key of Some PNone \<Rightarrow> None | x \<Rightarrow> x"
  have run: "HybridSearch_build_filters filters = (Inr ?ps :: 'e exn + pyval list)"
    by (simp add: HybridSearch_build_filters_def)
  have lo: "\<forall>v. map_of filters ''min_price'' = Some v \<longrightarrow>
            (\<exists>bounds. range_predicate ''price'' bounds \<in> set ?ps \<and> map_of bounds ''gte'' = Some v)"
    by (cases "map_of filters ''max_price''") (auto simp: must_clauses_spec spec_defs)
  have hi: "\<forall>v. map_of filters ''max_price'' = Some v \<longrightarrow>
            (\<exists>bounds. range_predicate ''price'' bounds \<in> set ?ps \<and> map_of bounds ''lte'' = Some v)"
    by (cases "map_of filters ''min_price''") (auto simp: must_clauses_spec spec_defs)
  have cat: "\<forall>v. map_of filters ''category'' = Some v \<longrightarrow> term_predicate ''category'' v \<in> set ?ps"
    by (simp add: must_clauses_spec spec_translate_def spec_term_def)
  have brand: "\<forall>v. map_of filters ''brand'' = Some v \<longrightarrow> term_predicate ''brand'' v \<in> set ?ps"
    by (simp add: must_clauses_spec spec_translate_def spec_term_def)
  have rating: "\<forall>v. map_of filters ''min_rating'' = Some v \<longrightarrow>
            range_predicate ''rating'' [(''gte'', v)] \<in> set ?ps"
    by (simp add: must_clauses_spec spec_translate_def spec_rating_def)
  have differs: "\<forall>v. k \<in> filter_keys \<and> map_of filters k = Some v \<longrightarrow>
            HybridSearch_build_filters (AList.delete k filters) \<noteq> (Inr ?ps :: 'e exn + pyval list)"
  proof (intro allI impI)
    fix v assume "k \<in> filter_keys \<and> map_of filters k = Some v"
    then show "HybridSearch_build_filters (AList.delete k filters)
                 \<noteq> (Inr ?ps :: 'e exn + pyval list)"
      using spec_translate_known_key [of k "map_of filters" v]
      by (simp add: HybridSearch_build_filters_def must_clauses_spec delete_conv')
  qed
  have cleaned: "distinct (map fst filters) \<longrightarrow>
            HybridSearch_build_filters (remove_nulls filters)
              = (Inr (spec_translate ?f) :: 'e exn + pyval list)"
    by (simp add: HybridSearch_build_filters_def must_clauses_spec map_of_remove_nulls)
  have null_absent: "distinct (map fst filters) \<and> map_of filters k = Some PNone \<longrightarrow>
            HybridSearch_build_filters (remove_nulls filters)
              = (HybridSearch_build_filters (remove_nulls (AList.delete k filters))
                   :: 'e exn + pyval list)"
  proof
    assume dict: "distinct (map fst filters) \<and> map_of filters k = Some PNone"
    have "v = PNone" if "(k, v) \<in> set filters" for v
    proof -
      from dict have "distinct (map fst filters)" by simp
      from map_of_is_SomeI [OF this that] have "map_of filters k = Some v" .
      with dict show ?thesis by simp
    qed
    then have "remove_nulls (AList.delete k filters) = remove_nulls filters"
      by (rule remove_nulls_delete)
    then show "HybridSearch_build_filters (remove_nulls filters)
          = (HybridSearch_build_filters (remove_nulls (AList.delete k filters)) :: 'e exn + pyval list)"
      by simp
  qed
  have empty_kept: "distinct (map fst filters) \<and> k' \<in> filter_keys \<and> map_of filters k' = Some (PStr []) \<longrightarrow>
            HybridSearch_build_filters (remove_nulls filters)
              \<noteq> (HybridSearch_build_filters (remove_nulls (AList.delete k' filters))
                   :: 'e exn + pyval list)"
  proof
    assume a: "distinct (map fst filters) \<and> k' \<in> filter_keys \<and> map_of filters k' = Some (PStr [])"
    then have d: "distinct (map fst filters)" and d': "distinct (map fst (AList.delete k' filters))"
      by (simp_all add: distinct_delete)
    have kept: "?f k' = Some (PStr [])" using a by simp
    have "map_of (remove_nulls (AList.delete k' filters)) = ?f(k' := None)"
      by (simp add: map_of_remove_nulls [OF d'] delete_conv' fun_eq_iff)
    moreover have "map_of (remove_nulls filters) = ?f"
      by (rule map_of_remove_nulls [OF d])
    moreover have "spec_translate ?f \<noteq> spec_translate (?f(k' := None))"
      using a kept by (intro spec_translate_known_key [THEN not_sym]) simp_all
    ultimately show "HybridSearch_build_filters (remove_nulls filters)
              \<noteq> (HybridSearch_build_filters (remove_nulls (AList.delete k' filters))
                   :: 'e exn + pyval list)"
      by (simp add: HybridSearch_build_filters_def must_clauses_spec)
  qed
  show ?thesis
    by (rule exI [of _ ?ps])
      (intro conjI run lo hi cat brand rating differs cleaned null_absent empty_kept)
qed

theorem build_filters_by_key_membership_witness:
  "''category'' \<in> filter_keys \<and> ''brand'' \<in> filter_keys
   \<and> distinct (map fst [(''min_price'', PNone), (''max_price'', PStr []), (''category'', PNone),
                         (''brand'', PStr []), (''min_rating'', PNone)])
   \<and> map_of [(''min_price'', PNone), (''max_price'', PStr []), (''category'', PNone),
             (''brand'', PStr []), (''min_rating'', PNone)] ''category'' = Some PNone
   \<and> map_of [(''min_price'', PNone), (''max_price'', PStr []), (''category'', PNone),
             (''brand'', PStr []), (''min_rating'', PNone)] ''brand'' = Some (PStr [])
   \<and> HybridSearch_build_filters
        [(''min_price'', PNone), (''max_price'', PStr []), (''category'', PNone),
         (''brand'', PStr []), (''min_rating'', PNone)]
       = (Inr [range_predicate ''price'' [(''gte'', PNone), (''lte'', PStr [])],
               term_predicate ''category'' PNone,
               term_predicate ''brand'' (PStr []),
               range_predicate ''rating'' [(''gte'', PNone)]] :: string exn + pyval list)
   \<and> HybridSearch_build_filters
        (remove_nulls [(''min_price'', PNone), (''max_price'', PStr []), (''category'', PNone),
                       (''brand'', PStr []), (''min_rating'', PNone)])
       = (Inr [range_predicate ''price'' [(''lte'', PStr [])],
               term_predicate ''brand'' (PStr [])] :: string exn + pyval list)
   \<and> HybridSearch_build_filters
        (remove_nulls (AList.delete ''brand''
          [(''min_price'', PNone), (''max_price'', PStr []), (''category'', PNone),
           (''brand'', PStr []), (''min_rating'', PNone)]))
       = (Inr [range_predicate ''price'' [(''lte'', PStr [])]] :: string exn + pyval list)"
  using build_filters_by_key_membership
    [of "[(''min_price'', PNone), (''max_price'', PStr []), (''category'', PNone),
          (''brand'', PStr []), (''min_rating'', PNone)]" "''category''" "''brand''",
     where ?'e = string]
  by (simp add: filter_keys_def HybridSearch_build_filters_def must_clauses_spec spec_defs
      remove_nulls_def)

text \<open>
  C4 as stated fails: \<^verbatim>\<open>{category: None}\<close> and \<^verbatim>\<open>{brand: ""}\<close> are translated to
  exact-match predicates on \<^verbatim>\<open>None\<close> and on the empty string, while the FilterSet
  without the key gives no predicate.
\<close>

theorem build_filters_null_value_counterexample:
  "HybridSearch_build_filters [(''category'', PNone)]
     = (Inr [PDict [(''term'', PDict [(''category'', PNone)])]] :: string exn + pyval list)
   \<and> HybridSearch_build_filters [(''brand'', PStr [])]
     = (Inr [PDict [(''term'', PDict [(''brand'', PStr [])])]] :: string exn + pyval list)
   \<and> HybridSearch_build_filters (AList.delete ''category'' [(''category'', PNone)])
     = (Inr [] :: string exn + pyval list)"
  by (simp add: HybridSearch_build_filters_def must_clauses_of_def dict_in_def dict_set_def)

section \<open>The hybrid search: the claims\<close>

text \<open>
  C1, as the code has it. \<^verbatim>\<open>HybridSearch.search\<close> does not look at the sign of
  \<^verbatim>\<open>top_k\<close>: for every \<open>top_k \<le> 0\<close> it never raises \<open>InvalidArgument\<close>, its first
  call is the embedding call, and when that call returns it issues one retrieval call
  with \<open>size = top_k\<close>, \<open>k = top_k\<close> and \<open>num_candidates = 3 * top_k\<close> and hands on
  what the backend answers: its hits as results, or its exception.
\<close>

theorem top_k_not_validated:
  "top_k \<le> 0 \<Longrightarrow>
     (\<forall>m. snd (HybridSearch_search w query top_k sw filters) \<noteq> Inl (InvalidArgument m))
   \<and> (\<exists>rest. fst (HybridSearch_search w query top_k sw filters) = EncodeQuery query # rest)
   \<and> (\<forall>qv. encode_query w query = Inr qv \<longrightarrow>
        (\<exists>req. fst (HybridSearch_search w query top_k sw filters)
                  = [EncodeQuery query, ClientSearch req]
           \<and> req_size req = top_k
           \<and> py_get ''k'' (req_knn req) = Some (PInt top_k)
           \<and> py_get ''num_candidates'' (req_knn req) = Some (PInt (top_k * 3))
           \<and> snd (HybridSearch_search w query top_k sw filters)
               = (case client_search w req of Inl e \<Rightarrow> Inl (Raised e)
                  | Inr hits \<Rightarrow> Inr (map make_result hits))))"
proof (cases "encode_query w query")
  case (Inl e)
  then show ?thesis by (simp add: hybrid_search_embed_fails)
next
  case (Inr qv)
  from hybrid_search_embed_ok [OF this, of top_k sw filters] obtain req body knn where
    run: "HybridSearch_search w query top_k sw filters =
             ([EncodeQuery query, ClientSearch req],
              case client_search w req of Inl e \<Rightarrow> Inl (Raised e)
               | Inr hits \<Rightarrow> Inr (map make_result hits))"
    and req: "req = \<lparr> req_index = index_name w, req_query = Some (PDict [(''bool'', PDict body)]),
                   req_knn = PDict knn, req_size = top_k, req_source = source_excludes,
                   req_rank = Some rrf_rank \<rparr>"
    and knn: "knn = (case filters of None \<Rightarrow> knn_base qv top_k 3
              | Some d \<Rightarrow> if d \<noteq> [] then dict_set ''filter'' (PList (must_clauses_of d)) (knn_base qv top_k 3) else knn_base qv top_k 3)"
    by blast
  have k: "py_get ''k'' (req_knn req) = Some (PInt top_k)"
    and n: "py_get ''num_candidates'' (req_knn req) = Some (PInt (top_k * 3))"
    unfolding req knn
    by (auto simp: dict_set_def update_conv' knn_base_def split: option.splits)
  have "snd (HybridSearch_search w query top_k sw filters) \<noteq> Inl (InvalidArgument m)" for m
    unfolding run by (simp split: sum.splits)
  with Inr run req k n show ?thesis by simp
qed

theorem top_k_not_validated_witness:
  "(0::int) \<le> 0
   \<and> encode_query (fixture_world []) ''winter jacket'' = Inr [1 / 4, 3 / 4]
   \<and> snd (HybridSearch_search (fixture_world []) ''winter jacket'' 0 (1 / 2) None)
        \<noteq> Inl (InvalidArgument ''top_k'')
   \<and> (\<exists>req. fst (HybridSearch_search (fixture_world []) ''winter jacket'' 0 (1 / 2) None)
                = [EncodeQuery ''winter jacket'', ClientSearch req]
          \<and> req_size req = 0
          \<and> py_get ''k'' (req_knn req) = Some (PInt 0)
          \<and> py_get ''num_candidates'' (req_knn req) = Some (PInt 0)
          \<and> snd (HybridSearch_search (fixture_world []) ''winter jacket'' 0 (1 / 2) None) = Inr [])"
  using top_k_not_validated [of 0 "fixture_world []" "''winter jacket''" "1 / 2" None]
  by (simp add: fixture_world_def)

text \<open>
  C1 as stated fails: with \<open>top_k = 0\<close> the embedding call and the retrieval call are
  both issued, and the search returns the backend's (empty) hit list instead of raising
  \<open>InvalidArgument\<close>.
\<close>

theorem top_k_zero_counterexample:
  "HybridSearch_search (fixture_world []) ''winter jacket'' 0 (1 / 2) None =
     ([EncodeQuery ''winter jacket'',
       ClientSearch
         \<lparr> req_index = ''products_vector_search'',
           req_query = Some (PDict [(''bool'', PDict [(''should'', PList [PDict [(''multi_match'',
             PDict [(''query'', PStr ''winter jacket''),
                    (''fields'', PList [PStr ''title^3'', PStr ''description^2'', PStr ''tags'']),
                    (''type'', PStr ''best_fields''),
                    (''fuzziness'', PStr ''AUTO'')])]])])]),
           req_knn = PDict [(''field'', PStr ''combined_vector''),
                            (''query_vector'', PList [PFloat (1 / 4), PFloat (3 / 4)]),
                            (''k'', PInt 0), (''num_candidates'', PInt 0)],
           req_size = 0,
           req_source = PDict [(''excludes'', PList [PStr ''*_vector''])],
           req_rank = Some (PDict [(''rrf'', PDict [(''window_size'', PInt 50),
                                                    (''rank_constant'', PInt 20)])]) \<rparr>],
      Inr [])"
  by (simp add: run_defs)

text \<open>
  C2, as the code has it. For every query and filter set, if \<^verbatim>\<open>encode_query\<close> raises
  \<open>e\<close> then \<^verbatim>\<open>HybridSearch.search\<close> raises that same \<open>e\<close>, unwrapped, and the embedding
  call is the only call it has issued: no retrieval call, no keyword-only search, no
  empty result.
\<close>

theorem embedding_failure_propagates:
  "encode_query w query = Inl e \<Longrightarrow>
     snd (HybridSearch_search w query top_k sw filters) = Inl (Raised e)
   \<and> fst (HybridSearch_search w query top_k sw filters) = [EncodeQuery query]"
  by (simp add: hybrid_search_embed_fails)

theorem embedding_failure_propagates_witness:
  "encode_query failing_embedder ''winter jacket'' = Inl ''model unreachable''
   \<and> snd (HybridSearch_search failing_embedder ''winter jacket'' 3 (1 / 2)
            (Some [(''max_price'', PInt 150)])) = Inl (Raised ''model unreachable'')
   \<and> fst (HybridSearch_search failing_embedder ''winter jacket'' 3 (1 / 2)
            (Some [(''max_price'', PInt 150)])) = [EncodeQuery ''winter jacket'']"
  using embedding_failure_propagates
    [of failing_embedder "''winter jacket''" "''model unreachable''" 3 "1 / 2"
        "Some [(''max_price'', PInt 150)]"]
  by (simp add: failing_embedder_def)

text \<open>
  C2 as stated fails: the exception of the embedding model leaves the search as it is; it
  is not a \<open>DependencyError\<close> wrapping it.
\<close>

theorem embedding_failure_not_wrapped_counterexample:
  "snd (HybridSearch_search failing_embedder ''winter jacket'' 3 (1 / 2) None)
     = Inl (Raised ''model unreachable'')
   \<and> snd (HybridSearch_search failing_embedder ''winter jacket'' 3 (1 / 2) None)
     \<noteq> Inl (DependencyError ''model unreachable'')"
  by (simp add: run_defs)

text \<open>
  C6. For every non-empty FilterSet passed to \<^verbatim>\<open>HybridSearch.search\<close> (the embedding
  having succeeded, so that a request is built), the filter predicates under
  \<^verbatim>\<open>query.bool.filter\<close> of the lexical sub-query and those under \<^verbatim>\<open>knn.filter\<close> of the
  vector sub-query are the same list: the translation of the FilterSet.
\<close>

theorem same_filters_on_both_subqueries:
  "truthy filters \<Longrightarrow> encode_query (w :: 'e world) query = Inr qv \<Longrightarrow>
   \<exists>req q d fs.
       fst (HybridSearch_search w query top_k sw filters) = [EncodeQuery query, ClientSearch req]
     \<and> filters = Some d
     \<and> HybridSearch_build_filters d = (Inr fs :: 'e exn + pyval list)
     \<and> req_query req = Some q
     \<and> py_path [''bool'', ''filter''] q = Some (PList fs)
     \<and> py_get ''filter'' (req_knn req) = Some (PList fs)"
proof -
  assume nonempty: "truthy filters" and embedded: "encode_query w query = Inr qv"
  from nonempty obtain d where d: "filters = Some d" "d \<noteq> []"
    by (cases filters) simp_all
  from hybrid_search_embed_ok [OF embedded, of top_k sw filters] obtain req body knn where
    run: "HybridSearch_search w query top_k sw filters =
             ([EncodeQuery query, ClientSearch req],
              case client_search w req of Inl e \<Rightarrow> Inl (Raised e)
               | Inr hits \<Rightarrow> Inr (map make_result hits))"
    and req: "req = \<lparr> req_index = index_name w, req_query = Some (PDict [(''bool'', PDict body)]),
                   req_knn = PDict knn, req_size = top_k, req_source = source_excludes,
                   req_rank = Some rrf_rank \<rparr>"
    and body: "body = (case filters of None \<Rightarrow> keyword_bool query
              | Some d \<Rightarrow> if d \<noteq> [] then dict_set ''filter'' (PList (must_clauses_of d)) (keyword_bool query) else keyword_bool query)"
    and knn: "knn = (case filters of None \<Rightarrow> knn_base qv top_k 3
              | Some d \<Rightarrow> if d \<noteq> [] then dict_set ''filter'' (PList (must_clauses_of d)) (knn_base qv top_k 3) else knn_base qv top_k 3)"
    by blast
  have lexical: "py_path [''bool'', ''filter''] (PDict [(''bool'', PDict body)])
                   = Some (PList (must_clauses_of d))"
    unfolding body using d by (simp add: dict_set_def update_conv')
  have vector: "py_get ''filter'' (req_knn req) = Some (PList (must_clauses_of d))"
    unfolding req knn using d by (simp add: dict_set_def update_conv')
  from run req d lexical vector show ?thesis
    by (simp add: HybridSearch_build_filters_def)
qed

theorem same_filters_on_both_subqueries_witness:
  "truthy (Some [(''max_price'', PInt 150), (''brand'', PStr ''Acme'')])
   \<and> encode_query (fixture_world [jacket]) ''winter jacket'' = Inr [1 / 4, 3 / 4]
   \<and> (\<exists>req q fs.
         fst (HybridSearch_search (fixture_world [jacket]) ''winter jacket'' 3 (1 / 2)
               (Some [(''max_price'', PInt 150), (''brand'', PStr ''Acme'')]))
           = [EncodeQuery ''winter jacket'', ClientSearch req]
       \<and> fs = [PDict [(''range'', PDict [(''price'', PDict [(''lte'', PInt 150)])])],
               PDict [(''term'', PDict [(''brand'', PStr ''Acme'')])]]
       \<and> req_query req = Some q
       \<and> py_path [''bool'', ''filter''] q = Some (PList fs)
       \<and> py_get ''filter'' (req_knn req) = Some (PList fs))"
  using same_filters_on_both_subqueries
    [of "Some [(''max_price'', PInt 150), (''brand'', PStr ''Acme'')]" "fixture_world [jacket]"
        "''winter jacket''" "[1 / 4, 3 / 4]" 3 "1 / 2"]
  by (auto simp: fixture_world_def HybridSearch_build_filters_def must_clauses_of_def
      dict_in_def dict_set_def)



text \<open>
  C8. For every query and \<open>top_k\<close>, the request that \<^verbatim>\<open>HybridSearch.search\<close> builds (once
  the embedding is there) has a lexical sub-query whose one \<^verbatim>\<open>multi_match\<close> clause matches
  the query string on \<^verbatim>\<open>title^3\<close>, \<^verbatim>\<open>description^2\<close> and \<^verbatim>\<open>tags\<close>, that is with boosts
  3 : 2 : 1, with fuzziness \<^verbatim>\<open>AUTO\<close>; a vector sub-query on the field
  \<^verbatim>\<open>combined_vector\<close> with the query's embedding, \<open>k = top_k\<close> and
  \<open>num_candidates = 3 * top_k\<close>; \<open>size = top_k\<close>; and the rank clause \<^verbatim>\<open>rrf\<close> with window
  size 50 and rank constant 20.
\<close>

theorem hybrid_request_shape:
  "encode_query w query = Inr qv \<Longrightarrow>
   \<exists>req q mm.
       fst (HybridSearch_search w query top_k sw filters) = [EncodeQuery query, ClientSearch req]
     \<and> req_query req = Some q
     \<and> py_path [''bool'', ''should''] q = Some (PList [PDict [(''multi_match'', mm)]])
     \<and> py_get ''query'' mm = Some (PStr query)
     \<and> py_get ''fields'' mm = Some (PList (map PStr [''title^3'', ''description^2'', ''tags'']))
     \<and> map field_boost [''title^3'', ''description^2'', ''tags'']
          = [(''title'', 3), (''description'', 2), (''tags'', 1)]
     \<and> py_get ''fuzziness'' mm = Some (PStr ''AUTO'')
     \<and> py_get ''field'' (req_knn req) = Some (PStr ''combined_vector'')
     \<and> py_get ''query_vector'' (req_knn req) = Some (PList (map PFloat qv))
     \<and> py_get ''k'' (req_knn req) = Some (PInt top_k)
     \<and> py_get ''num_candidates'' (req_knn req) = Some (PInt (3 * top_k))
     \<and> req_size req = top_k
     \<and> py_path [''rrf'', ''window_size''] (case req_rank req of Some r \<Rightarrow> r | None \<Rightarrow> PNone)
          = Some (PInt 50)
     \<and> py_path [''rrf'', ''rank_constant''] (case req_rank req of Some r \<Rightarrow> r | None \<Rightarrow> PNone)
          = Some (PInt 20)"
proof -
  assume embedded: "encode_query w query = Inr qv"
  from hybrid_search_embed_ok [OF embedded, of top_k sw filters] obtain req body knn where
    run: "HybridSearch_search w query top_k sw filters =
             ([EncodeQuery query, ClientSearch req],
              case client_search w req of Inl e \<Rightarrow> Inl (Raised e)
               | Inr hits \<Rightarrow> Inr (map make_result hits))"
    and req: "req = \<lparr> req_index = index_name w, req_query = Some (PDict [(''bool'', PDict body)]),
                   req_knn = PDict knn, req_size = top_k, req_source = source_excludes,
                   req_rank = Some rrf_rank \<rparr>"
    and body: "body = (case filters of None \<Rightarrow> keyword_bool query
              | Some d \<Rightarrow> if d \<noteq> [] then dict_set ''filter'' (PList (must_clauses_of d)) (keyword_bool query) else keyword_bool query)"
    and knn: "knn = (case filters of None \<Rightarrow> knn_base qv top_k 3
              | Some d \<Rightarrow> if d \<noteq> [] then dict_set ''filter'' (PList (must_clauses_of d)) (knn_base qv top_k 3) else knn_base qv top_k 3)"
    by blast
  define mm where "mm = PDict [(''query'', PStr query),
                (''fields'', PList [PStr ''title^3'', PStr ''description^2'', PStr ''tags'']),
                (''type'', PStr ''best_fields''),
                (''fuzziness'', PStr ''AUTO'')]"
  have lexical: "py_path [''bool'', ''should''] (PDict [(''bool'', PDict body)])
                   = Some (PList [PDict [(''multi_match'', mm)]])"
    unfolding body mm_def
    by (auto simp: dict_set_def update_conv' keyword_bool_def split: option.splits)
  have mm: "py_get ''query'' mm = Some (PStr query)"
    "py_get ''fields'' mm = Some (PList (map PStr [''title^3'', ''description^2'', ''tags'']))"
    "py_get ''fuzziness'' mm = Some (PStr ''AUTO'')"
    by (simp_all add: mm_def)
  have boosts: "map field_boost [''title^3'', ''description^2'', ''tags'']
          = [(''title'', 3), (''description'', 2), (''tags'', 1)]"
    by (simp add: field_boost_def)
  have vector: "py_get ''field'' (req_knn req) = Some (PStr ''combined_vector'')"
    "py_get ''query_vector'' (req_knn req) = Some (PList (map PFloat qv))"
    "py_get ''k'' (req_knn req) = Some (PInt top_k)"
    "py_get ''num_candidates'' (req_knn req) = Some (PInt (3 * top_k))"
    unfolding req knn
    by (auto simp: dict_set_def update_conv' knn_base_def split: option.splits)
  have rank: "py_path [''rrf'', ''window_size''] (case req_rank req of Some r \<Rightarrow> r | None \<Rightarrow> PNone)
          = Some (PInt 50)"
    "py_path [''rrf'', ''rank_constant''] (case req_rank req of Some r \<Rightarrow> r | None \<Rightarrow> PNone)
          = Some (PInt 20)"
    unfolding req by (simp_all add: rrf_rank_def)
  have "req_query req = Some (PDict [(''bool'', PDict body)])" "req_size req = top_k"
    unfolding req by simp_all
  with run lexical mm boosts vector rank show ?thesis
    by (intro exI [of _ req] exI [of _ "PDict [(''bool'', PDict body)]"] exI [of _ mm]) simp
qed

theorem hybrid_request_shape_witness:
  "encode_query (fixture_world [jacket]) ''winter jacket'' = Inr [1 / 4, 3 / 4]
   \<and> (\<exists>req q mm.
         fst (HybridSearch_search (fixture_world [jacket]) ''winter jacket'' 5 (1 / 2)
               (Some [(''min_rating'', PInt 4)]))
           = [EncodeQuery ''winter jacket'', ClientSearch req]
       \<and> req_query req = Some q
       \<and> py_path [''bool'', ''should''] q = Some (PList [PDict [(''multi_match'', mm)]])
       \<and> py_get ''query'' mm = Some (PStr ''winter jacket'')
       \<and> py_get ''fuzziness'' mm = Some (PStr ''AUTO'')
       \<and> py_get ''k'' (req_knn req) = Some (PInt 5)
       \<and> py_get ''num_candidates'' (req_knn req) = Some (PInt 15)
       \<and> req_size req = 5)"
  using hybrid_request_shape
    [of "fixture_world [jacket]" "''winter jacket''" "[1 / 4, 3 / 4]" 5 "1 / 2"
        "Some [(''min_rating'', PInt 4)]"]
  by (auto simp: fixture_world_def)




section \<open>The vector search: the claim\<close>




end
